theory Spec2Isabelle
  imports Complex_Main
begin

section \<open>Python values\<close>

text \<open>
  The parameter bag of \<^verbatim>\<open>guardduty_security_operations\<close> is a Python \<^verbatim>\<open>dict\<close> of keyword
  arguments whose values arrive from a JSON tool call: \<^verbatim>\<open>None\<close>, booleans, integers, finite
  floats (by their exact value; infinities and NaN are left out), strings, lists and dicts.
  A Python \<^verbatim>\<open>str\<close> is represented by its UTF-8 bytes, so equality and concatenation of
  strings are those of the byte lists.
  A dict is an association list in insertion order; its keys are values, because
  \<^verbatim>\<open>dict.update\<close> with a sequence of pairs can insert keys that are not strings.
\<close>

datatype pyval =
    PNone
  | PBool bool
  | PInt int
  | PFloat rat
  | PStr string
  | PList "pyval list"
  | PDict "(pyval \<times> pyval) list"

type_synonym pydict = "(pyval \<times> pyval) list"

abbreviation (input) sq :: string where
  "sq \<equiv> [CHR 0x27]"

text \<open>Python truthiness, as tested by \<^verbatim>\<open>not x\<close> and \<^verbatim>\<open>if x\<close>.\<close>

fun truthy :: "pyval \<Rightarrow> bool" where
  "truthy PNone = False"
| "truthy (PBool b) = b"
| "truthy (PInt i) = (i \<noteq> 0)"
| "truthy (PFloat r) = (r \<noteq> 0)"
| "truthy (PStr s) = (s \<noteq> [])"
| "truthy (PList xs) = (xs \<noteq> [])"
| "truthy (PDict d) = (d \<noteq> [])"

subsection \<open>Dictionary keys\<close>

text \<open>
  Keys are compared with Python's \<^verbatim>\<open>==\<close>: booleans, integers and floats are equal when they
  are numerically equal (\<^verbatim>\<open>True == 1 == 1.0\<close>); a string equals only the same string.
\<close>

fun key_num :: "pyval \<Rightarrow> rat option" where
  "key_num (PBool b) = Some (if b then 1 else 0)"
| "key_num (PInt i) = Some (of_int i)"
| "key_num (PFloat r) = Some r"
| "key_num PNone = None"
| "key_num (PStr s) = None"
| "key_num (PList xs) = None"
| "key_num (PDict d) = None"

definition key_eq :: "pyval \<Rightarrow> pyval \<Rightarrow> bool" where
  "key_eq a b =
     (case key_num a of
        Some x \<Rightarrow> (case key_num b of Some y \<Rightarrow> x = y | None \<Rightarrow> False)
      | None \<Rightarrow> (case key_num b of Some y \<Rightarrow> False | None \<Rightarrow> a = b))"

fun hashable :: "pyval \<Rightarrow> bool" where
  "hashable (PList xs) = False"
| "hashable (PDict d) = False"
| "hashable v = True"

text \<open>\<^verbatim>\<open>d.get(k)\<close>, \<^verbatim>\<open>k in d\<close> and \<^verbatim>\<open>d[k]\<close>: the value stored under a key, if any.\<close>

fun dict_get :: "pydict \<Rightarrow> pyval \<Rightarrow> pyval option" where
  "dict_get [] k = None"
| "dict_get ((k', v) # d) k = (if key_eq k' k then Some v else dict_get d k)"

text \<open>\<^verbatim>\<open>d.get(k, default)\<close>.\<close>

definition dict_get_default :: "pydict \<Rightarrow> pyval \<Rightarrow> pyval \<Rightarrow> pyval" where
  "dict_get_default d k dflt = (case dict_get d k of None \<Rightarrow> dflt | Some v \<Rightarrow> v)"

text \<open>
  \<^verbatim>\<open>d[k] = v\<close>: an existing key keeps its place (and its key object) and gets the new value,
  a new key is appended.
\<close>

fun dict_set :: "pydict \<Rightarrow> pyval \<Rightarrow> pyval \<Rightarrow> pydict" where
  "dict_set [] k v = [(k, v)]"
| "dict_set ((k', v') # d) k v =
     (if key_eq k' k then (k', v) # d else (k', v') # dict_set d k v)"

text \<open>\<^verbatim>\<open>del d[k]\<close>, for a key that is present.\<close>

definition dict_del :: "pydict \<Rightarrow> pyval \<Rightarrow> pydict" where
  "dict_del d k = filter (\<lambda>(k', v). \<not> key_eq k' k) d"

subsection \<open>\<^verbatim>\<open>dict.update\<close>\<close>

text \<open>
  \<^verbatim>\<open>params.update(parsed_params)\<close> is called with whatever \<^verbatim>\<open>json.loads\<close> returned.  For a
  dict the entries are stored one by one.  Any other argument is iterated as a sequence of
  key/value pairs: a number, a boolean or \<^verbatim>\<open>None\<close> is not iterable (\<^verbatim>\<open>TypeError\<close>); every
  element must itself be iterable (\<^verbatim>\<open>TypeError\<close> otherwise) with exactly two items
  (\<^verbatim>\<open>ValueError\<close> otherwise), the first of them hashable (\<^verbatim>\<open>TypeError\<close> otherwise).
  The third exception below is the one for a local name that is read before it is bound; it
  does not come from \<^verbatim>\<open>dict.update\<close>.
\<close>

datatype builtin_error = TypeError | ValueError | UnboundLocalError

definition is_continuation :: "char \<Rightarrow> bool" where
  "is_continuation c = (128 \<le> (of_char c :: nat) \<and> (of_char c :: nat) < 192)"

text \<open>The characters (code points) of a string, each as a string of its own.\<close>

function code_points :: "string \<Rightarrow> string list" where
  "code_points [] = []"
| "code_points (c # cs) =
     (c # takeWhile is_continuation cs) # code_points (dropWhile is_continuation cs)"
  by pat_completeness auto
termination
  by (relation "measure length") (auto simp: length_dropWhile_le less_Suc_eq_le)

fun merge_dict :: "pydict \<Rightarrow> pydict \<Rightarrow> pydict" where
  "merge_dict d [] = d"
| "merge_dict d ((k, v) # kvs) = merge_dict (dict_set d k v) kvs"

fun as_sequence :: "pyval \<Rightarrow> pyval list option" where
  "as_sequence (PStr s) = Some (map PStr (code_points s))"
| "as_sequence (PList xs) = Some xs"
| "as_sequence (PDict d) = Some (map fst d)"
| "as_sequence PNone = None"
| "as_sequence (PBool b) = None"
| "as_sequence (PInt i) = None"
| "as_sequence (PFloat r) = None"

fun merge_from_seq2 :: "pydict \<Rightarrow> pyval list \<Rightarrow> builtin_error + pydict" where
  "merge_from_seq2 d [] = Inr d"
| "merge_from_seq2 d (item # items) =
     (case as_sequence item of
        None \<Rightarrow> Inl TypeError
      | Some [k, v] \<Rightarrow>
          (if hashable k then merge_from_seq2 (dict_set d k v) items else Inl TypeError)
      | Some _ \<Rightarrow> Inl ValueError)"

definition dict_update :: "pydict \<Rightarrow> pyval \<Rightarrow> builtin_error + pydict" where
  "dict_update d arg =
     (case arg of
        PDict kvs \<Rightarrow> Inr (merge_dict d kvs)
      | _ \<Rightarrow> (case as_sequence arg of
                None \<Rightarrow> Inl TypeError
              | Some items \<Rightarrow> merge_from_seq2 d items))"

section \<open>The collaborators and the libraries\<close>

text \<open>
  The six functions of \<^verbatim>\<open>aws_security_mcp.tools.guardduty_tools\<close> are imported, not
  defined, by the wrapper.  A call of one of them is the function's name with the keyword
  arguments the wrapper passes, in the order of the call in the source; the last argument
  is always \<^verbatim>\<open>session_context\<close>.
\<close>

datatype call =
    ListDetectors pyval "string option"
  | ListFindings pyval pyval pyval pyval pyval "string option"
  | GetFindingDetails pyval pyval "string option"
  | GetFindingsStatistics pyval pyval pyval pyval pyval pyval "string option"
  | ListIpSets pyval pyval "string option"
  | ListThreatIntelSets pyval pyval "string option"

text \<open>
  A fault raised by a collaborator: an instance of \<^verbatim>\<open>Exception\<close> with its
  \<^verbatim>\<open>type(e).__name__\<close>, its \<^verbatim>\<open>str(e)\<close> and the text \<^verbatim>\<open>traceback.format_exc()\<close> gives for it.
\<close>

record fault =
  type_name :: string
  message :: string
  traceback :: string

datatype decoded = Decoded pyval | JSONDecodeError string

text \<open>
  What the wrapper calls and does not define: \<^verbatim>\<open>json.loads\<close> on a string (the decoded
  value, or \<^verbatim>\<open>JSONDecodeError\<close> with its \<^verbatim>\<open>str(e)\<close>; the \<^verbatim>\<open>RecursionError\<close> of a very
  deeply nested text is left out), \<^verbatim>\<open>json.dumps\<close> (with its \<^verbatim>\<open>indent\<close> argument), and
  the collaborators, which return text or raise.  The last
  field is the \<^verbatim>\<open>UnboundLocalError\<close> that the interpreter raises when a local name is read
  before it is bound, as the handler sees it: its message depends on the Python version, its
  traceback on the call stack.
\<close>

record env =
  json_loads :: "string \<Rightarrow> decoded"
  json_dumps :: "nat option \<Rightarrow> pyval \<Rightarrow> string"
  collaborator :: "call \<Rightarrow> fault + string"
  unbound_local :: fault

text \<open>What a call of the wrapper does besides returning: log records and awaited calls.\<close>

datatype event = LogInfo string | LogError string | Await call

fun calls_of :: "event list \<Rightarrow> call list" where
  "calls_of [] = []"
| "calls_of (Await c # es) = c # calls_of es"
| "calls_of (LogInfo s # es) = calls_of es"
| "calls_of (LogError s # es) = calls_of es"

section \<open>\<^verbatim>\<open>guardduty_security_operations\<close>\<close>

text \<open>A JSON object written as a dict literal with string keys, and a list of strings.\<close>

definition obj :: "(string \<times> pyval) list \<Rightarrow> pyval" where
  "obj kvs = PDict (map (\<lambda>(k, v). (PStr k, v)) kvs)"

definition strs :: "string list \<Rightarrow> pyval" where
  "strs xs = PList (map PStr xs)"

text \<open>
  \<^verbatim>\<open>str(xs)\<close> of a list of strings, as the f-string \<^verbatim>\<open>{missing_params}\<close> prints it.  The
  elements are the literals \<^verbatim>\<open>detector_id\<close> and \<^verbatim>\<open>finding_id\<close>, whose \<^verbatim>\<open>repr\<close> is the
  string between single quotes.
\<close>

fun join_comma :: "string list \<Rightarrow> string" where
  "join_comma [] = []"
| "join_comma [x] = x"
| "join_comma (x # y # ys) = x @ '', '' @ join_comma (y # ys)"

definition py_str_list :: "string list \<Rightarrow> string" where
  "py_str_list xs = ''['' @ join_comma (map (\<lambda>x. sq @ x @ sq) xs) @ '']''"

text \<open>The f-string rendering of \<^verbatim>\<open>session_context\<close>, which is a string or \<^verbatim>\<open>None\<close>.\<close>

definition format_optional :: "string option \<Rightarrow> string" where
  "format_optional sc = (case sc of None \<Rightarrow> ''None'' | Some s \<Rightarrow> s)"

subsection \<open>Lines 90 to 107: the nested \<^verbatim>\<open>params\<close> object\<close>

text \<open>
  The module imports \<^verbatim>\<open>json\<close> at line 7, and the function imports it again at line 96,
  inside the branch for a nested \<^verbatim>\<open>params\<close> string.  An import statement in a function body
  binds a local name, so \<^verbatim>\<open>json\<close> is a local variable of the whole function
  \<^verbatim>\<open>guardduty_security_operations\<close>: it is bound once line 96 has run, and until then every
  \<^verbatim>\<open>json.dumps\<close> and \<^verbatim>\<open>json.loads\<close> of the function raises \<^verbatim>\<open>UnboundLocalError\<close>.
  Preprocessing therefore yields, with the normalised bag, whether \<^verbatim>\<open>json\<close> is bound.
\<close>

datatype preprocessed = Proceed bool pydict | InvalidJson string | Escapes builtin_error

definition preprocess :: "env \<Rightarrow> pydict \<Rightarrow> preprocessed" where
  "preprocess e params =
     (case dict_get params (PStr ''params'') of
        Some (PDict d) \<Rightarrow> Proceed False d
      | Some (PStr s) \<Rightarrow>
          (case json_loads e s of
             JSONDecodeError msg \<Rightarrow> InvalidJson msg
           | Decoded parsed_params \<Rightarrow>
               (case dict_update params parsed_params of
                  Inl err \<Rightarrow> Escapes err
                | Inr params' \<Rightarrow> Proceed True (dict_del params' (PStr ''params''))))
      | _ \<Rightarrow> Proceed False params)"

definition invalid_json_response :: "string \<Rightarrow> pyval" where
  "invalid_json_response msg =
     obj [(''error'', obj [
        (''message'', PStr (''Invalid JSON in params: '' @ msg)),
        (''type'', PStr ''JSONDecodeError'')])]"

subsection \<open>Lines 109 to 249: the branches\<close>

text \<open>
  The body of the \<^verbatim>\<open>try\<close> block either returns \<^verbatim>\<open>json.dumps\<close> of an object without
  calling a collaborator, or returns what one awaited collaborator call returns.  A subscript
  \<^verbatim>\<open>params["detector_id"]\<close> that follows the test \<^verbatim>\<open>"detector_id" not in params\<close> is
  written as one case distinction on the lookup; for \<^verbatim>\<open>get_finding_details\<close> the list
  \<^verbatim>\<open>missing_params\<close> is empty exactly when both lookups succeed.
\<close>

datatype action = Respond pyval | Invoke call

definition usage_statistics :: string where
  "usage_statistics =
     ''operation='get_findings_statistics', detector_id='detector-id', finding_statistic_types=['COUNT_BY_SEVERITY'] OR group_by='FINDING_TYPE'' @ sq"

definition required_params :: "string list" where
  "required_params = [''detector_id'', ''finding_id'']"

definition available_operations :: "string list" where
  "available_operations =
     [''list_detectors'',
      ''list_findings'',
      ''get_finding_details'',
      ''list_ip_sets'',
      ''list_threat_intel_sets'',
      ''get_findings_statistics'']"

definition usage_examples :: "(string \<times> pyval) list" where
  "usage_examples =
     [(''list_detectors'', PStr (''operation='list_detectors'' @ sq)),
      (''list_findings'',
         PStr (''operation='list_findings', detector_id='detector-id', severity='HIGH'' @ sq)),
      (''get_finding_details'',
         PStr (''operation='get_finding_details', detector_id='detector-id', finding_id='finding-id'' @ sq)),
      (''get_findings_statistics'',
         PStr ''operation='get_findings_statistics', detector_id='detector-id', finding_statistic_types=['COUNT_BY_SEVERITY']'')]"

definition unknown_operation_response :: "string \<Rightarrow> pyval" where
  "unknown_operation_response operation =
     obj [(''error'', PStr (''Unknown operation: '' @ operation)),
          (''available_operations'', strs available_operations),
          (''usage_examples'', obj usage_examples)]"

definition dispatch :: "string \<Rightarrow> string option \<Rightarrow> pydict \<Rightarrow> action" where
  "dispatch operation session_context params =
     (if operation = ''list_detectors'' then
        Invoke (ListDetectors
          (dict_get_default params (PStr ''max_results'') (PInt 100))
          session_context)
      else if operation = ''list_findings'' then
        (case dict_get params (PStr ''detector_id'') of
           None \<Rightarrow> Respond (obj [
             (''error'', PStr ''detector_id is required for list_findings operation''),
             (''usage'', PStr (''operation='list_findings', detector_id='your-detector-id'' @ sq))])
         | Some detector_id \<Rightarrow> Invoke (ListFindings
             detector_id
             (dict_get_default params (PStr ''max_results'') (PInt 50))
             (dict_get_default params (PStr ''finding_ids'') PNone)
             (dict_get_default params (PStr ''severity'') PNone)
             (dict_get_default params (PStr ''search_term'') PNone)
             session_context))
      else if operation = ''get_finding_details'' then
        (let missing_params =
           filter (\<lambda>param. dict_get params (PStr param) = None) required_params
         in case (dict_get params (PStr ''detector_id''), dict_get params (PStr ''finding_id'')) of
           (Some detector_id, Some finding_id) \<Rightarrow>
             Invoke (GetFindingDetails detector_id finding_id session_context)
         | _ \<Rightarrow> Respond (obj [
             (''error'', PStr (''Missing required parameters: '' @ py_str_list missing_params)),
             (''usage'', PStr (''operation='get_finding_details', detector_id='detector-id', finding_id='finding-id'' @ sq))]))
      else if operation = ''list_ip_sets'' then
        (case dict_get params (PStr ''detector_id'') of
           None \<Rightarrow> Respond (obj [
             (''error'', PStr ''detector_id is required for list_ip_sets operation''),
             (''usage'', PStr (''operation='list_ip_sets', detector_id='your-detector-id'' @ sq))])
         | Some detector_id \<Rightarrow> Invoke (ListIpSets
             detector_id
             (dict_get_default params (PStr ''max_results'') (PInt 50))
             session_context))
      else if operation = ''list_threat_intel_sets'' then
        (case dict_get params (PStr ''detector_id'') of
           None \<Rightarrow> Respond (obj [
             (''error'', PStr ''detector_id is required for list_threat_intel_sets operation''),
             (''usage'', PStr (''operation='list_threat_intel_sets', detector_id='your-detector-id'' @ sq))])
         | Some detector_id \<Rightarrow> Invoke (ListThreatIntelSets
             detector_id
             (dict_get_default params (PStr ''max_results'') (PInt 50))
             session_context))
      else if operation = ''get_findings_statistics'' then
        (case dict_get params (PStr ''detector_id'') of
           None \<Rightarrow> Respond (obj [
             (''error'', PStr ''detector_id is required for get_findings_statistics operation''),
             (''usage'', PStr usage_statistics)])
         | Some detector_id \<Rightarrow>
            (let finding_statistic_types =
                   dict_get_default params (PStr ''finding_statistic_types'') PNone;
                 group_by = dict_get_default params (PStr ''group_by'') PNone
             in if \<not> truthy finding_statistic_types \<and> \<not> truthy group_by then
                  Respond (obj [
                    (''error'', PStr ''Either finding_statistic_types or group_by parameter is required''),
                    (''usage'', PStr usage_statistics)])
                else if truthy finding_statistic_types \<and> truthy group_by then
                  Respond (obj [
                    (''error'', PStr ''Cannot provide both finding_statistic_types and group_by parameters''),
                    (''usage'', PStr usage_statistics)])
                else Invoke (GetFindingsStatistics
                  detector_id
                  finding_statistic_types
                  group_by
                  (dict_get_default params (PStr ''finding_criteria'') PNone)
                  (dict_get_default params (PStr ''order_by'') PNone)
                  (dict_get_default params (PStr ''max_results'') PNone)
                  session_context)))
      else Respond (unknown_operation_response operation))"

subsection \<open>Lines 251 to 262: the handler\<close>

definition fault_response :: "string \<Rightarrow> fault \<Rightarrow> pydict \<Rightarrow> pyval" where
  "fault_response operation f params =
     obj [(''error'', obj [
        (''message'',
           PStr (''Error executing GuardDuty operation '' @ sq @ operation @ sq @ '': '' @ message f)),
        (''type'', PStr (type_name f)),
        (''operation'', PStr operation),
        (''parameters'', PDict params)])]"

text \<open>
  The handler logs the exception and its traceback and returns \<^verbatim>\<open>json.dumps\<close> of the error
  object.  With \<^verbatim>\<open>json\<close> unbound that last call raises inside the handler, and the
  \<^verbatim>\<open>UnboundLocalError\<close> leaves the function.
\<close>

definition handler ::
    "env \<Rightarrow> bool \<Rightarrow> string \<Rightarrow> pydict \<Rightarrow> fault \<Rightarrow> event list \<times> (builtin_error + string)" where
  "handler e json_bound operation params f =
     ([LogError (''Error in GuardDuty operation '' @ sq @ operation @ sq @ '': '' @ message f),
       LogError (''Traceback: '' @ traceback f)],
      if json_bound then Inr (json_dumps e None (fault_response operation f params))
      else Inl UnboundLocalError)"

subsection \<open>The whole function\<close>

text \<open>
  The result is \<^verbatim>\<open>Inr\<close> the returned text, or \<^verbatim>\<open>Inl\<close> the exception that leaves the
  function, together with the events of the call in their order.  A \<^verbatim>\<open>return json.dumps(...)\<close>
  of the \<^verbatim>\<open>try\<close> block returns when \<^verbatim>\<open>json\<close> is bound, and otherwise raises
  \<^verbatim>\<open>UnboundLocalError\<close> into the handler, as a fault of the awaited collaborator does.
\<close>

definition request_log :: "string \<Rightarrow> string option \<Rightarrow> event" where
  "request_log operation session_context =
     LogInfo (''GuardDuty operation requested: '' @ operation @
              '' (session_context='' @ format_optional session_context @ '')'')"

definition guardduty_security_operations ::
    "env \<Rightarrow> string \<Rightarrow> string option \<Rightarrow> pydict \<Rightarrow> event list \<times> (builtin_error + string)" where
  "guardduty_security_operations e operation session_context params =
     (let requested = request_log operation session_context
      in case preprocess e params of
           Escapes err \<Rightarrow> ([requested], Inl err)
         | InvalidJson msg \<Rightarrow>
             ([requested, LogError (''Error parsing JSON params: '' @ msg)],
              Inr (json_dumps e None (invalid_json_response msg)))
         | Proceed json_bound params' \<Rightarrow>
             (case dispatch operation session_context params' of
                Respond response \<Rightarrow>
                  (if json_bound then ([requested], Inr (json_dumps e None response))
                   else
                     (let (logged, result) =
                            handler e json_bound operation params' (unbound_local e)
                      in (requested # logged, result)))
              | Invoke c \<Rightarrow>
                  (case collaborator e c of
                     Inr text \<Rightarrow> ([requested, Await c], Inr text)
                   | Inl f \<Rightarrow>
                       (let (logged, result) = handler e json_bound operation params' f
                        in (requested # Await c # logged, result)))))"

section \<open>\<^verbatim>\<open>discover_guardduty_operations\<close>\<close>

abbreviation (input) rightwards_arrow :: string where
  "rightwards_arrow \<equiv> [CHR 0xE2, CHR 0x86, CHR 0x92]"

definition session_context_parameter :: "string \<times> pyval" where
  "session_context_parameter =
     (''session_context'', obj [
        (''type'', PStr ''str''),
        (''description'', PStr ''Optional session key for cross-account access'')])"

definition detector_id_parameter :: "string \<times> pyval" where
  "detector_id_parameter =
     (''detector_id'', obj [
        (''type'', PStr ''str''),
        (''required'', PBool True),
        (''description'', PStr ''GuardDuty detector ID'')])"

text \<open>The value of the key \<^verbatim>\<open>operations\<close> of the catalog, entry by entry.\<close>

definition catalog_operations :: "(string \<times> pyval) list" where
  "catalog_operations =
   [(''list_detectors'', obj [
       (''description'', PStr ''List all GuardDuty detectors in the AWS account''),
       (''parameters'', obj [
          (''max_results'', obj [
             (''type'', PStr ''int''),
             (''default'', PInt 100),
             (''description'', PStr ''Maximum detectors to return'')]),
          session_context_parameter]),
       (''examples'', strs [
          ''guardduty_security_operations(operation='list_detectors')'',
          ''guardduty_security_operations(operation='list_detectors', session_context='123456789012_aws_dev')'']),
       (''use_cases'', strs [
          ''Check if GuardDuty is enabled'',
          ''Audit detector configurations'',
          ''Get detector IDs for other operations'',
          ''Cross-account detector discovery''])]),
    (''list_findings'', obj [
       (''description'', PStr ''Retrieve security findings with advanced filtering capabilities''),
       (''parameters'', obj [
          detector_id_parameter,
          (''max_results'', obj [
             (''type'', PStr ''int''),
             (''default'', PInt 50),
             (''description'', PStr ''Maximum findings to return'')]),
          (''severity'', obj [
             (''type'', PStr ''str''),
             (''options'', strs [''LOW'', ''MEDIUM'', ''HIGH'', ''ALL'']),
             (''description'', PStr ''Filter by severity'')]),
          (''search_term'', obj [
             (''type'', PStr ''str''),
             (''description'', PStr ''Text search across finding details'')]),
          (''finding_ids'', obj [
             (''type'', PStr ''list''),
             (''description'', PStr ''Specific finding IDs to retrieve'')]),
          session_context_parameter]),
       (''examples'', strs [
          ''guardduty_security_operations(operation='list_findings', detector_id='abc123')'',
          ''guardduty_security_operations(operation='list_findings', detector_id='abc123', severity='HIGH')'',
          ''guardduty_security_operations(operation='list_findings', detector_id='abc123', search_term='cryptocurrency')'',
          ''guardduty_security_operations(operation='list_findings', detector_id='abc123', session_context='123456789012_aws_dev')'']),
       (''use_cases'', strs [
          ''Monitor active security threats'',
          ''Filter findings by severity level'',
          ''Search for specific threat patterns'',
          ''Export findings for reporting'',
          ''Cross-account threat monitoring''])]),
    (''get_finding_details'', obj [
       (''description'', PStr ''Get comprehensive details about a specific security finding''),
       (''parameters'', obj [
          detector_id_parameter,
          (''finding_id'', obj [
             (''type'', PStr ''str''),
             (''required'', PBool True),
             (''description'', PStr ''Specific finding ID to analyze'')]),
          session_context_parameter]),
       (''examples'', strs [
          ''guardduty_security_operations(operation='get_finding_details', detector_id='abc123', finding_id='def456')'',
          ''guardduty_security_operations(operation='get_finding_details', detector_id='abc123', finding_id='def456', session_context='123456789012_aws_dev')'']),
       (''use_cases'', strs [
          ''Investigate specific security incidents'',
          ''Get remediation recommendations'',
          ''Analyze attack patterns and IOCs'',
          ''Cross-account incident investigation''])]),
    (''list_ip_sets'', obj [
       (''description'', PStr ''List trusted and threat IP sets configured in GuardDuty''),
       (''parameters'', obj [
          detector_id_parameter,
          (''max_results'', obj [
             (''type'', PStr ''int''),
             (''default'', PInt 50),
             (''description'', PStr ''Maximum IP sets to return'')]),
          session_context_parameter]),
       (''examples'', strs [
          ''guardduty_security_operations(operation='list_ip_sets', detector_id='abc123')'',
          ''guardduty_security_operations(operation='list_ip_sets', detector_id='abc123', session_context='123456789012_aws_dev')'']),
       (''use_cases'', strs [
          ''Review custom threat intelligence'',
          ''Audit trusted IP configurations'',
          ''Manage IP-based detection rules'',
          ''Cross-account IP set management''])]),
    (''list_threat_intel_sets'', obj [
       (''description'', PStr ''List threat intelligence feeds and indicators''),
       (''parameters'', obj [
          detector_id_parameter,
          (''max_results'', obj [
             (''type'', PStr ''int''),
             (''default'', PInt 50),
             (''description'', PStr ''Maximum threat intel sets to return'')]),
          session_context_parameter]),
       (''examples'', strs [
          ''guardduty_security_operations(operation='list_threat_intel_sets', detector_id='abc123')'',
          ''guardduty_security_operations(operation='list_threat_intel_sets', detector_id='abc123', session_context='123456789012_aws_dev')'']),
       (''use_cases'', strs [
          ''Review threat intelligence sources'',
          ''Validate threat feed configurations'',
          ''Audit custom threat indicators'',
          ''Cross-account threat intelligence management''])]),
    (''get_findings_statistics'', obj [
       (''description'', PStr ''Get official AWS-calculated statistics (severity counts, grouping)''),
       (''parameters'', obj [
          detector_id_parameter,
          (''finding_statistic_types'', obj [
             (''type'', PStr ''list''),
             (''description'', PStr ''Types of statistics to get (e.g., ['COUNT_BY_SEVERITY'])'')]),
          (''group_by'', obj [
             (''type'', PStr ''str''),
             (''options'', strs [''ACCOUNT'', ''DATE'', ''FINDING_TYPE'', ''RESOURCE'', ''SEVERITY'']),
             (''description'', PStr ''Group statistics by category'')]),
          (''finding_criteria'', obj [
             (''type'', PStr ''dict''),
             (''description'', PStr ''Criteria to filter findings for statistics'')]),
          (''order_by'', obj [
             (''type'', PStr ''str''),
             (''options'', strs [''ASC'', ''DESC'']),
             (''description'', PStr ''Sort order (only with group_by)'')]),
          (''max_results'', obj [
             (''type'', PStr ''int''),
             (''description'', PStr ''Maximum results (only with group_by, max 100)'')]),
          session_context_parameter]),
       (''examples'', strs [
          ''guardduty_security_operations(operation='get_findings_statistics', detector_id='abc123', finding_statistic_types=['COUNT_BY_SEVERITY'])'',
          ''guardduty_security_operations(operation='get_findings_statistics', detector_id='abc123', group_by='FINDING_TYPE', order_by='DESC', max_results=10)'',
          ''guardduty_security_operations(operation='get_findings_statistics', detector_id='abc123', finding_statistic_types=['COUNT_BY_SEVERITY'], session_context='123456789012_aws_dev')'']),
       (''usage_notes'', strs [
          ''Must provide either finding_statistic_types OR group_by, but not both'',
          ''order_by and max_results can only be used with group_by'',
          ''Use finding_statistic_types=['COUNT_BY_SEVERITY'] for basic severity counts'',
          ''Use group_by for advanced grouping and sorting capabilities'']),
       (''use_cases'', strs [
          ''Get official AWS-calculated severity statistics'',
          ''Analyze findings grouped by type, account, or resource'',
          ''Generate statistics reports with filtering'',
          ''Cross-account statistics monitoring''])])]"

definition operations_catalog :: pyval where
  "operations_catalog = obj [
     (''service'', PStr ''AWS GuardDuty''),
     (''description'', PStr ''Threat detection and continuous security monitoring service''),
     (''wrapper_tool'', PStr ''guardduty_security_operations''),
     (''cross_account_support'', obj [
        (''enabled'', PBool True),
        (''parameter'', PStr ''session_context''),
        (''format'', PStr ''123456789012_aws_dev''),
        (''description'', PStr ''Access GuardDuty resources across different AWS accounts'')]),
     (''operations'', obj catalog_operations),
     (''security_insights'', obj [
        (''best_practices'', strs [
           ''Always start with list_detectors to get detector IDs'',
           ''Use severity filtering for high-priority threat triage'',
           ''Regular monitoring of HIGH severity findings'',
           ''Review threat intelligence configurations periodically'',
           ''Implement cross-account monitoring for centralized security'']),
        (''common_workflows'', strs [
           ''1. List detectors '' @ rightwards_arrow @ '' 2. List high-severity findings '' @
             rightwards_arrow @ '' 3. Analyze specific findings'',
           ''1. List detectors '' @ rightwards_arrow @ '' 2. Review IP sets '' @
             rightwards_arrow @ '' 3. Validate threat intelligence'',
           ''Cross-account: 1. List detectors with session_context '' @ rightwards_arrow @
             '' 2. Monitor findings across accounts''])])]"

text \<open>
  The function builds the catalog and returns \<^verbatim>\<open>json.dumps(operations_catalog, indent=2)\<close>;
  it logs nothing and awaits nothing.
\<close>

definition discover_guardduty_operations :: "env \<Rightarrow> event list \<times> (builtin_error + string)" where
  "discover_guardduty_operations e = ([], Inr (json_dumps e (Some 2) operations_catalog))"

section \<open>Reading responses, and environments to evaluate in\<close>

text \<open>The value under a string key of a serialised object.\<close>

definition field :: "pyval \<Rightarrow> string \<Rightarrow> pyval option" where
  "field v k = (case v of PDict d \<Rightarrow> dict_get d (PStr k) | _ \<Rightarrow> None)"

text \<open>
  Two shapes of a result of \<^verbatim>\<open>guardduty_security_operations\<close>.  In the first, exactly one
  collaborator call is awaited, the given one, and when that call returns text the function
  returns the same text.  In the second, no collaborator is awaited, and when the local name
  \<^verbatim>\<open>json\<close> is bound the returned text is \<^verbatim>\<open>json.dumps\<close> of the given object.
\<close>

definition passes_through :: "env \<Rightarrow> call \<Rightarrow> event list \<times> (builtin_error + string) \<Rightarrow> bool" where
  "passes_through e c r =
     (calls_of (fst r) = [c] \<and> (\<forall>text. collaborator e c = Inr text \<longrightarrow> snd r = Inr text))"

definition answers ::
    "env \<Rightarrow> bool \<Rightarrow> pyval \<Rightarrow> event list \<times> (builtin_error + string) \<Rightarrow> bool" where
  "answers e json_bound response r =
     (calls_of (fst r) = [] \<and> (json_bound \<longrightarrow> snd r = Inr (json_dumps e None response)))"

text \<open>
  An environment in which every collaborator returns text.  Its decoder agrees with
  \<^verbatim>\<open>json.loads\<close> on the three strings it is applied to below: \<^verbatim>\<open>json.loads("5")\<close> is the
  integer 5, \<^verbatim>\<open>json.loads("{}")\<close> is the empty dict, and \<^verbatim>\<open>json.loads("not valid json")\<close>
  raises \<^verbatim>\<open>JSONDecodeError\<close> with this message.
\<close>

definition sample_env :: env where
  "sample_env = \<lparr>
     json_loads = (\<lambda>s. if s = ''5'' then Decoded (PInt 5)
                        else if s = ''{}'' then Decoded (PDict [])
                        else JSONDecodeError ''Expecting value: line 1 column 1 (char 0)''),
     json_dumps = (\<lambda>indent v. ''{}''),
     collaborator = (\<lambda>c. Inr ''{}''),
     unbound_local = \<lparr>
        type_name = ''UnboundLocalError'',
        message = ''cannot access local variable 'json' where it is not associated with a value'',
        traceback = ''Traceback (most recent call last)'' \<rparr> \<rparr>"

text \<open>An environment in which every collaborator raises.\<close>

definition failing_env :: env where
  "failing_env = sample_env \<lparr>
     collaborator := (\<lambda>c. Inl \<lparr>
        type_name = ''ClientError'',
        message = ''An error occurred (AccessDeniedException)'',
        traceback = ''Traceback (most recent call last)'' \<rparr>) \<rparr>"

section \<open>Basic facts\<close>

lemma key_eq_PStr [simp]:
  "key_eq (PStr a) k = (k = PStr a)"
  "key_eq k (PStr a) = (k = PStr a)"
  by (cases k; auto simp: key_eq_def)+

lemma calls_of_request_log [simp]:
  "calls_of (request_log operation session_context # es) = calls_of es"
  by (simp add: request_log_def)

lemma sample_env_simps [simp]:
  "json_loads sample_env s =
     (if s = ''5'' then Decoded (PInt 5)
      else if s = ''{}'' then Decoded (PDict [])
      else JSONDecodeError ''Expecting value: line 1 column 1 (char 0)'')"
  "json_dumps sample_env indent v = ''{}''"
  "collaborator sample_env c = Inr ''{}''"
  by (simp_all add: sample_env_def)

lemma failing_env_simps [simp]:
  "json_loads failing_env = json_loads sample_env"
  "json_dumps failing_env = json_dumps sample_env"
  "unbound_local failing_env = unbound_local sample_env"
  "collaborator failing_env c = Inl \<lparr>
        type_name = ''ClientError'',
        message = ''An error occurred (AccessDeniedException)'',
        traceback = ''Traceback (most recent call last)'' \<rparr>"
  by (simp_all add: failing_env_def)

text \<open>
  The local name \<^verbatim>\<open>json\<close> is bound after preprocessing exactly when the bag had a string
  under \<^verbatim>\<open>params\<close>.
\<close>

lemma preprocess_json_bound:
  assumes "preprocess e params = Proceed json_bound ps"
  shows "json_bound = (\<exists>s. dict_get params (PStr ''params'') = Some (PStr s))"
  using assms
  by (auto simp add: preprocess_def
      split: option.splits pyval.splits decoded.splits sum.splits)

lemma preprocess_without_nested_string:
  assumes "\<And>s. dict_get params (PStr ''params'') \<noteq> Some (PStr s)"
  shows "\<exists>ps. preprocess e params = Proceed False ps"
  using assms
  by (auto simp add: preprocess_def split: option.splits pyval.splits)

lemma invoke_passes_through:
  assumes "preprocess e params = Proceed json_bound ps"
    and "dispatch operation sc ps = Invoke c"
  shows "passes_through e c (guardduty_security_operations e operation sc params)"
  using assms
  by (simp add: guardduty_security_operations_def passes_through_def handler_def Let_def
      split: sum.splits)

lemma respond_answers:
  assumes "preprocess e params = Proceed json_bound ps"
    and "dispatch operation sc ps = Respond response"
  shows "answers e json_bound response (guardduty_security_operations e operation sc params)"
  using assms
  by (simp add: guardduty_security_operations_def answers_def handler_def Let_def)

text \<open>
  A \<^verbatim>\<open>return json.dumps(...)\<close> of the \<^verbatim>\<open>try\<close> block with \<^verbatim>\<open>json\<close> unbound: the
  \<^verbatim>\<open>UnboundLocalError\<close> is caught and logged by the handler, whose own \<^verbatim>\<open>json.dumps\<close> raises
  it again, out of the function.
\<close>

lemma respond_unbound:
  assumes "preprocess e params = Proceed False ps"
    and "dispatch operation sc ps = Respond response"
  shows "guardduty_security_operations e operation sc params =
           ([request_log operation sc,
             LogError (''Error in GuardDuty operation '' @ sq @ operation @ sq @ '': '' @
                       message (unbound_local e)),
             LogError (''Traceback: '' @ traceback (unbound_local e))],
            Inl UnboundLocalError)"
  using assms
  by (simp add: guardduty_security_operations_def handler_def Let_def)

section \<open>A nested \<^verbatim>\<open>params\<close> string that is not JSON\<close>



section \<open>Routing to the collaborators\<close>

text \<open>
  Claim C1, as amended.  Let the preprocessing of the parameter bag yield the normalised bag
  \<open>ps\<close> (with \<^verbatim>\<open>json\<close> bound or not).  For each of the six operation names, when the
  required parameters are in \<open>ps\<close> (\<^verbatim>\<open>detector_id\<close> for all but \<^verbatim>\<open>list_detectors\<close>, also
  \<^verbatim>\<open>finding_id\<close> for \<^verbatim>\<open>get_finding_details\<close>, and for \<^verbatim>\<open>get_findings_statistics\<close> exactly
  one of \<^verbatim>\<open>finding_statistic_types\<close> and \<^verbatim>\<open>group_by\<close> with a truthy value), the function
  awaits exactly one collaborator call, that of the matching collaborator, with the values
  taken from \<open>ps\<close> (defaults where the source gives them) and the given
  \<^verbatim>\<open>session_context\<close>, and returns the text that call returns.  The parameter values are
  arbitrary: no typing is assumed.
\<close>

theorem routes_to_matching_collaborator:
  assumes "preprocess e params = Proceed json_bound ps"
  shows
    "passes_through e
       (ListDetectors (dict_get_default ps (PStr ''max_results'') (PInt 100)) sc)
       (guardduty_security_operations e ''list_detectors'' sc params)
     \<and> (dict_get ps (PStr ''detector_id'') = Some detector_id \<longrightarrow>
          passes_through e
            (ListFindings detector_id
               (dict_get_default ps (PStr ''max_results'') (PInt 50))
               (dict_get_default ps (PStr ''finding_ids'') PNone)
               (dict_get_default ps (PStr ''severity'') PNone)
               (dict_get_default ps (PStr ''search_term'') PNone)
               sc)
            (guardduty_security_operations e ''list_findings'' sc params))
     \<and> (dict_get ps (PStr ''detector_id'') = Some detector_id \<and>
        dict_get ps (PStr ''finding_id'') = Some finding_id \<longrightarrow>
          passes_through e
            (GetFindingDetails detector_id finding_id sc)
            (guardduty_security_operations e ''get_finding_details'' sc params))
     \<and> (dict_get ps (PStr ''detector_id'') = Some detector_id \<longrightarrow>
          passes_through e
            (ListIpSets detector_id (dict_get_default ps (PStr ''max_results'') (PInt 50)) sc)
            (guardduty_security_operations e ''list_ip_sets'' sc params))
     \<and> (dict_get ps (PStr ''detector_id'') = Some detector_id \<longrightarrow>
          passes_through e
            (ListThreatIntelSets detector_id
               (dict_get_default ps (PStr ''max_results'') (PInt 50)) sc)
            (guardduty_security_operations e ''list_threat_intel_sets'' sc params))
     \<and> (dict_get ps (PStr ''detector_id'') = Some detector_id \<and>
        truthy (dict_get_default ps (PStr ''finding_statistic_types'') PNone)
          \<noteq> truthy (dict_get_default ps (PStr ''group_by'') PNone) \<longrightarrow>
          passes_through e
            (GetFindingsStatistics detector_id
               (dict_get_default ps (PStr ''finding_statistic_types'') PNone)
               (dict_get_default ps (PStr ''group_by'') PNone)
               (dict_get_default ps (PStr ''finding_criteria'') PNone)
               (dict_get_default ps (PStr ''order_by'') PNone)
               (dict_get_default ps (PStr ''max_results'') PNone)
               sc)
            (guardduty_security_operations e ''get_findings_statistics'' sc params))"
proof (intro conjI impI)
  show "passes_through e
       (ListDetectors (dict_get_default ps (PStr ''max_results'') (PInt 100)) sc)
       (guardduty_security_operations e ''list_detectors'' sc params)"
    by (rule invoke_passes_through [OF assms]) (simp add: dispatch_def)
next
  assume "dict_get ps (PStr ''detector_id'') = Some detector_id"
  then show "passes_through e
            (ListFindings detector_id
               (dict_get_default ps (PStr ''max_results'') (PInt 50))
               (dict_get_default ps (PStr ''finding_ids'') PNone)
               (dict_get_default ps (PStr ''severity'') PNone)
               (dict_get_default ps (PStr ''search_term'') PNone)
               sc)
            (guardduty_security_operations e ''list_findings'' sc params)"
    by (intro invoke_passes_through [OF assms]) (simp add: dispatch_def)
next
  assume "dict_get ps (PStr ''detector_id'') = Some detector_id \<and>
        dict_get ps (PStr ''finding_id'') = Some finding_id"
  then show "passes_through e
            (GetFindingDetails detector_id finding_id sc)
            (guardduty_security_operations e ''get_finding_details'' sc params)"
    by (intro invoke_passes_through [OF assms]) (simp add: dispatch_def)
next
  assume "dict_get ps (PStr ''detector_id'') = Some detector_id"
  then show "passes_through e
            (ListIpSets detector_id (dict_get_default ps (PStr ''max_results'') (PInt 50)) sc)
            (guardduty_security_operations e ''list_ip_sets'' sc params)"
    by (intro invoke_passes_through [OF assms]) (simp add: dispatch_def)
next
  assume "dict_get ps (PStr ''detector_id'') = Some detector_id"
  then show "passes_through e
            (ListThreatIntelSets detector_id
               (dict_get_default ps (PStr ''max_results'') (PInt 50)) sc)
            (guardduty_security_operations e ''list_threat_intel_sets'' sc params)"
    by (intro invoke_passes_through [OF assms]) (simp add: dispatch_def)
next
  assume "dict_get ps (PStr ''detector_id'') = Some detector_id \<and>
        truthy (dict_get_default ps (PStr ''finding_statistic_types'') PNone)
          \<noteq> truthy (dict_get_default ps (PStr ''group_by'') PNone)"
  then show "passes_through e
            (GetFindingsStatistics detector_id
               (dict_get_default ps (PStr ''finding_statistic_types'') PNone)
               (dict_get_default ps (PStr ''group_by'') PNone)
               (dict_get_default ps (PStr ''finding_criteria'') PNone)
               (dict_get_default ps (PStr ''order_by'') PNone)
               (dict_get_default ps (PStr ''max_results'') PNone)
               sc)
            (guardduty_security_operations e ''get_findings_statistics'' sc params)"
    by (intro invoke_passes_through [OF assms]) (auto simp add: dispatch_def Let_def)
qed

text \<open>
  The theorem at the bag \<^verbatim>\<open>{"detector_id": "d1", "finding_id": "f1", "group_by": "SEVERITY"}\<close>,
  which has the required parameters of all six operations.
\<close>

theorem routes_to_matching_collaborator_witness:
  "preprocess sample_env
     [(PStr ''detector_id'', PStr ''d1''), (PStr ''finding_id'', PStr ''f1''),
      (PStr ''group_by'', PStr ''SEVERITY'')] =
   Proceed False
     [(PStr ''detector_id'', PStr ''d1''), (PStr ''finding_id'', PStr ''f1''),
      (PStr ''group_by'', PStr ''SEVERITY'')]
   \<and> passes_through sample_env (ListDetectors (PInt 100) (Some ''123456789012_aws_dev''))
       (guardduty_security_operations sample_env ''list_detectors'' (Some ''123456789012_aws_dev'')
          [(PStr ''detector_id'', PStr ''d1''), (PStr ''finding_id'', PStr ''f1''),
           (PStr ''group_by'', PStr ''SEVERITY'')])
   \<and> passes_through sample_env
       (ListFindings (PStr ''d1'') (PInt 50) PNone PNone PNone (Some ''123456789012_aws_dev''))
       (guardduty_security_operations sample_env ''list_findings'' (Some ''123456789012_aws_dev'')
          [(PStr ''detector_id'', PStr ''d1''), (PStr ''finding_id'', PStr ''f1''),
           (PStr ''group_by'', PStr ''SEVERITY'')])
   \<and> passes_through sample_env
       (GetFindingDetails (PStr ''d1'') (PStr ''f1'') (Some ''123456789012_aws_dev''))
       (guardduty_security_operations sample_env ''get_finding_details'' (Some ''123456789012_aws_dev'')
          [(PStr ''detector_id'', PStr ''d1''), (PStr ''finding_id'', PStr ''f1''),
           (PStr ''group_by'', PStr ''SEVERITY'')])
   \<and> passes_through sample_env
       (ListIpSets (PStr ''d1'') (PInt 50) (Some ''123456789012_aws_dev''))
       (guardduty_security_operations sample_env ''list_ip_sets'' (Some ''123456789012_aws_dev'')
          [(PStr ''detector_id'', PStr ''d1''), (PStr ''finding_id'', PStr ''f1''),
           (PStr ''group_by'', PStr ''SEVERITY'')])
   \<and> passes_through sample_env
       (ListThreatIntelSets (PStr ''d1'') (PInt 50) (Some ''123456789012_aws_dev''))
       (guardduty_security_operations sample_env ''list_threat_intel_sets'' (Some ''123456789012_aws_dev'')
          [(PStr ''detector_id'', PStr ''d1''), (PStr ''finding_id'', PStr ''f1''),
           (PStr ''group_by'', PStr ''SEVERITY'')])
   \<and> passes_through sample_env
       (GetFindingsStatistics (PStr ''d1'') PNone (PStr ''SEVERITY'') PNone PNone PNone
          (Some ''123456789012_aws_dev''))
       (guardduty_security_operations sample_env ''get_findings_statistics'' (Some ''123456789012_aws_dev'')
          [(PStr ''detector_id'', PStr ''d1''), (PStr ''finding_id'', PStr ''f1''),
           (PStr ''group_by'', PStr ''SEVERITY'')])
   \<and> guardduty_security_operations sample_env ''get_finding_details'' (Some ''123456789012_aws_dev'')
          [(PStr ''detector_id'', PStr ''d1''), (PStr ''finding_id'', PStr ''f1''),
           (PStr ''group_by'', PStr ''SEVERITY'')] =
       ([request_log ''get_finding_details'' (Some ''123456789012_aws_dev''),
         Await (GetFindingDetails (PStr ''d1'') (PStr ''f1'') (Some ''123456789012_aws_dev''))],
        Inr ''{}'')"
proof -
  let ?ps = "[(PStr ''detector_id'', PStr ''d1''), (PStr ''finding_id'', PStr ''f1''),
              (PStr ''group_by'', PStr ''SEVERITY'')]"
  have a: "preprocess sample_env ?ps = Proceed False ?ps"
    by (simp add: preprocess_def)
  have b: "guardduty_security_operations sample_env ''get_finding_details''
             (Some ''123456789012_aws_dev'') ?ps =
           ([request_log ''get_finding_details'' (Some ''123456789012_aws_dev''),
             Await (GetFindingDetails (PStr ''d1'') (PStr ''f1'') (Some ''123456789012_aws_dev''))],
            Inr ''{}'')"
    by (simp add: guardduty_security_operations_def a dispatch_def required_params_def Let_def)
  show ?thesis
    using a b
      routes_to_matching_collaborator [OF a, of "Some ''123456789012_aws_dev''" "PStr ''d1''"
        "PStr ''f1''"]
    by (simp add: dict_get_default_def)
qed

text \<open>
  The claim as first stated fails for \<^verbatim>\<open>get_findings_statistics\<close>: with \<^verbatim>\<open>detector_id\<close> and
  an empty list for \<^verbatim>\<open>finding_statistic_types\<close> both in the bag (and no \<^verbatim>\<open>group_by\<close>), line 202
  tests the list's truth value, the branch for the "required" error is taken and nothing is
  awaited.
\<close>

theorem routes_to_matching_collaborator_counterexample:
  "dict_get [(PStr ''detector_id'', PStr ''d1''), (PStr ''finding_statistic_types'', PList [])]
     (PStr ''finding_statistic_types'') = Some (PList [])
   \<and> dispatch ''get_findings_statistics'' None
       [(PStr ''detector_id'', PStr ''d1''), (PStr ''finding_statistic_types'', PList [])] =
     Respond (obj [
       (''error'', PStr ''Either finding_statistic_types or group_by parameter is required''),
       (''usage'', PStr usage_statistics)])
   \<and> calls_of (fst (guardduty_security_operations sample_env ''get_findings_statistics'' None
       [(PStr ''detector_id'', PStr ''d1''), (PStr ''finding_statistic_types'', PList [])])) = []"
  by (simp add: guardduty_security_operations_def preprocess_def dispatch_def
      dict_get_default_def handler_def Let_def)

section \<open>The statistics operation's exclusive pair\<close>

text \<open>
  Claim C2, as amended.  For \<^verbatim>\<open>get_findings_statistics\<close> with \<^verbatim>\<open>detector_id\<close> in the
  normalised bag, what counts for \<^verbatim>\<open>finding_statistic_types\<close> and \<^verbatim>\<open>group_by\<close> is the truth
  value of what \<^verbatim>\<open>params.get\<close> returns (\<^verbatim>\<open>None\<close> when the key is absent): both truthy gives
  the conflict error, both falsy gives the "required" error, in both cases without any
  collaborator call and, when \<^verbatim>\<open>json\<close> is bound, as the returned text; exactly one truthy
  makes the function await the statistics collaborator and nothing else.
\<close>

theorem statistics_mutual_exclusion:
  assumes "preprocess e params = Proceed json_bound ps"
    and "dict_get ps (PStr ''detector_id'') = Some detector_id"
  shows
    "(truthy (dict_get_default ps (PStr ''finding_statistic_types'') PNone) \<and>
      truthy (dict_get_default ps (PStr ''group_by'') PNone) \<longrightarrow>
        answers e json_bound
          (obj [(''error'', PStr ''Cannot provide both finding_statistic_types and group_by parameters''),
                (''usage'', PStr usage_statistics)])
          (guardduty_security_operations e ''get_findings_statistics'' sc params))
     \<and> (\<not> truthy (dict_get_default ps (PStr ''finding_statistic_types'') PNone) \<and>
        \<not> truthy (dict_get_default ps (PStr ''group_by'') PNone) \<longrightarrow>
        answers e json_bound
          (obj [(''error'', PStr ''Either finding_statistic_types or group_by parameter is required''),
                (''usage'', PStr usage_statistics)])
          (guardduty_security_operations e ''get_findings_statistics'' sc params))
     \<and> (truthy (dict_get_default ps (PStr ''finding_statistic_types'') PNone)
          \<noteq> truthy (dict_get_default ps (PStr ''group_by'') PNone) \<longrightarrow>
        passes_through e
          (GetFindingsStatistics detector_id
             (dict_get_default ps (PStr ''finding_statistic_types'') PNone)
             (dict_get_default ps (PStr ''group_by'') PNone)
             (dict_get_default ps (PStr ''finding_criteria'') PNone)
             (dict_get_default ps (PStr ''order_by'') PNone)
             (dict_get_default ps (PStr ''max_results'') PNone)
             sc)
          (guardduty_security_operations e ''get_findings_statistics'' sc params))"
proof (intro conjI impI)
  assume "truthy (dict_get_default ps (PStr ''finding_statistic_types'') PNone) \<and>
      truthy (dict_get_default ps (PStr ''group_by'') PNone)"
  then show "answers e json_bound
          (obj [(''error'', PStr ''Cannot provide both finding_statistic_types and group_by parameters''),
                (''usage'', PStr usage_statistics)])
          (guardduty_security_operations e ''get_findings_statistics'' sc params)"
    using assms(2)
    by (intro respond_answers [OF assms(1)]) (simp add: dispatch_def Let_def)
next
  assume "\<not> truthy (dict_get_default ps (PStr ''finding_statistic_types'') PNone) \<and>
        \<not> truthy (dict_get_default ps (PStr ''group_by'') PNone)"
  then show "answers e json_bound
          (obj [(''error'', PStr ''Either finding_statistic_types or group_by parameter is required''),
                (''usage'', PStr usage_statistics)])
          (guardduty_security_operations e ''get_findings_statistics'' sc params)"
    using assms(2)
    by (intro respond_answers [OF assms(1)]) (simp add: dispatch_def Let_def)
next
  assume "truthy (dict_get_default ps (PStr ''finding_statistic_types'') PNone)
          \<noteq> truthy (dict_get_default ps (PStr ''group_by'') PNone)"
  then show "passes_through e
          (GetFindingsStatistics detector_id
             (dict_get_default ps (PStr ''finding_statistic_types'') PNone)
             (dict_get_default ps (PStr ''group_by'') PNone)
             (dict_get_default ps (PStr ''finding_criteria'') PNone)
             (dict_get_default ps (PStr ''order_by'') PNone)
             (dict_get_default ps (PStr ''max_results'') PNone)
             sc)
          (guardduty_security_operations e ''get_findings_statistics'' sc params)"
    using assms(2)
    by (intro invoke_passes_through [OF assms(1)]) (auto simp add: dispatch_def Let_def)
qed

text \<open>
  The theorem at four bags: both given and neither given, each next to a nested \<^verbatim>\<open>params\<close>
  string \<^verbatim>\<open>{}\<close> that binds \<^verbatim>\<open>json\<close>, then only the statistic types, and only the grouping
  (with \<^verbatim>\<open>order_by\<close> and \<^verbatim>\<open>max_results\<close>).
\<close>

theorem statistics_mutual_exclusion_witness:
  "preprocess sample_env
     [(PStr ''detector_id'', PStr ''d1''),
      (PStr ''finding_statistic_types'', PList [PStr ''COUNT_BY_SEVERITY'']),
      (PStr ''group_by'', PStr ''FINDING_TYPE''),
      (PStr ''params'', PStr ''{}'')] =
   Proceed True
     [(PStr ''detector_id'', PStr ''d1''),
      (PStr ''finding_statistic_types'', PList [PStr ''COUNT_BY_SEVERITY'']),
      (PStr ''group_by'', PStr ''FINDING_TYPE'')]
   \<and> answers sample_env True
     (obj [(''error'', PStr ''Cannot provide both finding_statistic_types and group_by parameters''),
           (''usage'', PStr usage_statistics)])
     (guardduty_security_operations sample_env ''get_findings_statistics'' None
        [(PStr ''detector_id'', PStr ''d1''),
         (PStr ''finding_statistic_types'', PList [PStr ''COUNT_BY_SEVERITY'']),
         (PStr ''group_by'', PStr ''FINDING_TYPE''),
         (PStr ''params'', PStr ''{}'')])
   \<and> answers sample_env True
     (obj [(''error'', PStr ''Either finding_statistic_types or group_by parameter is required''),
           (''usage'', PStr usage_statistics)])
     (guardduty_security_operations sample_env ''get_findings_statistics'' None
        [(PStr ''detector_id'', PStr ''d1''), (PStr ''params'', PStr ''{}'')])
   \<and> passes_through sample_env
     (GetFindingsStatistics (PStr ''d1'') (PList [PStr ''COUNT_BY_SEVERITY'']) PNone PNone PNone PNone None)
     (guardduty_security_operations sample_env ''get_findings_statistics'' None
        [(PStr ''detector_id'', PStr ''d1''),
         (PStr ''finding_statistic_types'', PList [PStr ''COUNT_BY_SEVERITY''])])
   \<and> passes_through sample_env
     (GetFindingsStatistics (PStr ''d1'') PNone (PStr ''FINDING_TYPE'') PNone (PStr ''DESC'') (PInt 10) None)
     (guardduty_security_operations sample_env ''get_findings_statistics'' None
        [(PStr ''detector_id'', PStr ''d1''), (PStr ''group_by'', PStr ''FINDING_TYPE''),
         (PStr ''order_by'', PStr ''DESC''), (PStr ''max_results'', PInt 10)])"
proof -
  let ?both = "[(PStr ''detector_id'', PStr ''d1''),
         (PStr ''finding_statistic_types'', PList [PStr ''COUNT_BY_SEVERITY'']),
         (PStr ''group_by'', PStr ''FINDING_TYPE'')]"
  let ?neither = "[(PStr ''detector_id'', PStr ''d1'')]"
  let ?types = "[(PStr ''detector_id'', PStr ''d1''),
         (PStr ''finding_statistic_types'', PList [PStr ''COUNT_BY_SEVERITY''])]"
  let ?group = "[(PStr ''detector_id'', PStr ''d1''), (PStr ''group_by'', PStr ''FINDING_TYPE''),
         (PStr ''order_by'', PStr ''DESC''), (PStr ''max_results'', PInt 10)]"
  have p: "preprocess sample_env (?both @ [(PStr ''params'', PStr ''{}'')]) = Proceed True ?both"
      "preprocess sample_env (?neither @ [(PStr ''params'', PStr ''{}'')]) = Proceed True ?neither"
      "preprocess sample_env ?types = Proceed False ?types"
      "preprocess sample_env ?group = Proceed False ?group"
    by (simp_all add: preprocess_def dict_update_def dict_del_def)
  have d: "dict_get ?both (PStr ''detector_id'') = Some (PStr ''d1'')"
      "dict_get ?neither (PStr ''detector_id'') = Some (PStr ''d1'')"
      "dict_get ?types (PStr ''detector_id'') = Some (PStr ''d1'')"
      "dict_get ?group (PStr ''detector_id'') = Some (PStr ''d1'')"
    by simp_all
  show ?thesis
    using p(1) statistics_mutual_exclusion [OF p(1) d(1), of None]
      statistics_mutual_exclusion [OF p(2) d(2), of None]
      statistics_mutual_exclusion [OF p(3) d(3), of None]
      statistics_mutual_exclusion [OF p(4) d(4), of None]
    by (simp add: dict_get_default_def)
qed

text \<open>
  The claim as first stated fails when one of the two is given with a falsy value: with
  \<^verbatim>\<open>finding_statistic_types\<close> a non-empty list and \<^verbatim>\<open>group_by\<close> the empty string, both are in
  the bag, yet no conflict is reported and the collaborator is awaited with both.
\<close>

theorem statistics_mutual_exclusion_counterexample:
  "dict_get
     [(PStr ''detector_id'', PStr ''d1''),
      (PStr ''finding_statistic_types'', PList [PStr ''COUNT_BY_SEVERITY'']),
      (PStr ''group_by'', PStr [])] (PStr ''group_by'') = Some (PStr [])
   \<and> dispatch ''get_findings_statistics'' None
       [(PStr ''detector_id'', PStr ''d1''),
        (PStr ''finding_statistic_types'', PList [PStr ''COUNT_BY_SEVERITY'']),
        (PStr ''group_by'', PStr [])] =
     Invoke (GetFindingsStatistics (PStr ''d1'') (PList [PStr ''COUNT_BY_SEVERITY'']) (PStr [])
       PNone PNone PNone None)
   \<and> guardduty_security_operations sample_env ''get_findings_statistics'' None
       [(PStr ''detector_id'', PStr ''d1''),
        (PStr ''finding_statistic_types'', PList [PStr ''COUNT_BY_SEVERITY'']),
        (PStr ''group_by'', PStr [])] =
     ([request_log ''get_findings_statistics'' None,
       Await (GetFindingsStatistics (PStr ''d1'') (PList [PStr ''COUNT_BY_SEVERITY'']) (PStr [])
         PNone PNone PNone None)],
      Inr ''{}'')"
  by (simp add: guardduty_security_operations_def preprocess_def dispatch_def
      dict_get_default_def handler_def Let_def)

section \<open>Unknown operations\<close>

text \<open>
  Claim C3, as amended.  For every operation string that is none of the six names, and every
  parameter bag whose preprocessing completes, the function takes the branch of the
  unknown-operation error and awaits no collaborator; when \<^verbatim>\<open>json\<close> is bound it returns the
  serialisation of the error object.  The object's \<^verbatim>\<open>available_operations\<close> is the list
  of the six names; its \<^verbatim>\<open>usage_examples\<close> has an entry for four of them:
  \<^verbatim>\<open>list_detectors\<close>, \<^verbatim>\<open>list_findings\<close>, \<^verbatim>\<open>get_finding_details\<close> and
  \<^verbatim>\<open>get_findings_statistics\<close>.
\<close>

theorem unknown_operation:
  assumes "operation \<notin> {''list_detectors'', ''list_findings'', ''get_finding_details'',
             ''list_ip_sets'', ''list_threat_intel_sets'', ''get_findings_statistics''}"
    and "preprocess e params = Proceed json_bound ps"
  shows
    "answers e json_bound (unknown_operation_response operation)
       (guardduty_security_operations e operation sc params)
     \<and> field (unknown_operation_response operation) ''error'' =
         Some (PStr (''Unknown operation: '' @ operation))
     \<and> field (unknown_operation_response operation) ''available_operations'' =
         Some (PList [PStr ''list_detectors'', PStr ''list_findings'',
                      PStr ''get_finding_details'', PStr ''list_ip_sets'',
                      PStr ''list_threat_intel_sets'', PStr ''get_findings_statistics''])
     \<and> field (unknown_operation_response operation) ''usage_examples'' =
         Some (obj usage_examples)
     \<and> map fst usage_examples =
         [''list_detectors'', ''list_findings'', ''get_finding_details'',
          ''get_findings_statistics'']"
proof -
  have "dispatch operation sc ps = Respond (unknown_operation_response operation)"
    using assms(1) by (simp add: dispatch_def)
  then have "answers e json_bound (unknown_operation_response operation)
       (guardduty_security_operations e operation sc params)"
    by (rule respond_answers [OF assms(2)])
  moreover have "field (unknown_operation_response operation) ''error'' =
         Some (PStr (''Unknown operation: '' @ operation))"
    by (simp add: field_def unknown_operation_response_def obj_def)
  moreover have "field (unknown_operation_response operation) ''available_operations'' =
         Some (PList [PStr ''list_detectors'', PStr ''list_findings'',
                      PStr ''get_finding_details'', PStr ''list_ip_sets'',
                      PStr ''list_threat_intel_sets'', PStr ''get_findings_statistics''])"
    by (simp add: field_def unknown_operation_response_def obj_def strs_def
        available_operations_def)
  moreover have "field (unknown_operation_response operation) ''usage_examples'' =
         Some (obj usage_examples)"
    by (simp add: field_def unknown_operation_response_def obj_def)
  moreover have "map fst usage_examples =
         [''list_detectors'', ''list_findings'', ''get_finding_details'',
          ''get_findings_statistics'']"
    by (simp add: usage_examples_def)
  ultimately show ?thesis by simp
qed

text \<open>
  The theorem at the operation \<^verbatim>\<open>bogus\<close> with a \<^verbatim>\<open>detector_id\<close> in the bag, next to a nested
  \<^verbatim>\<open>params\<close> string \<^verbatim>\<open>{}\<close> that binds \<^verbatim>\<open>json\<close>.
\<close>

theorem unknown_operation_witness:
  "''bogus'' \<notin> {''list_detectors'', ''list_findings'', ''get_finding_details'',
             ''list_ip_sets'', ''list_threat_intel_sets'', ''get_findings_statistics''}
   \<and> preprocess sample_env [(PStr ''detector_id'', PStr ''d1''), (PStr ''params'', PStr ''{}'')] =
       Proceed True [(PStr ''detector_id'', PStr ''d1'')]
   \<and> answers sample_env True (unknown_operation_response ''bogus'')
       (guardduty_security_operations sample_env ''bogus'' None
          [(PStr ''detector_id'', PStr ''d1''), (PStr ''params'', PStr ''{}'')])
   \<and> field (unknown_operation_response ''bogus'') ''error'' =
       Some (PStr ''Unknown operation: bogus'')
   \<and> field (unknown_operation_response ''bogus'') ''available_operations'' =
       Some (PList [PStr ''list_detectors'', PStr ''list_findings'',
                    PStr ''get_finding_details'', PStr ''list_ip_sets'',
                    PStr ''list_threat_intel_sets'', PStr ''get_findings_statistics''])"
proof -
  have a: "''bogus'' \<notin> {''list_detectors'', ''list_findings'', ''get_finding_details'',
             ''list_ip_sets'', ''list_threat_intel_sets'', ''get_findings_statistics''}"
    by simp
  have b: "preprocess sample_env [(PStr ''detector_id'', PStr ''d1''), (PStr ''params'', PStr ''{}'')] =
       Proceed True [(PStr ''detector_id'', PStr ''d1'')]"
    by (simp add: preprocess_def dict_update_def dict_del_def)
  show ?thesis
    using a b unknown_operation [OF a b, of None] by simp
qed

text \<open>
  The claim as first stated fails twice.  The usage examples of lines 243 to 248 have no entry
  for \<^verbatim>\<open>list_ip_sets\<close> and none for \<^verbatim>\<open>list_threat_intel_sets\<close>.  And the bag matters: the
  nested \<^verbatim>\<open>params\<close> string is decoded before the operation is looked at, so with a string
  that is not JSON the parse error is logged and returned, for an unknown operation too.
\<close>

theorem unknown_operation_counterexample:
  "dispatch ''bogus'' None [] = Respond (unknown_operation_response ''bogus'')
   \<and> field (unknown_operation_response ''bogus'') ''usage_examples'' = Some (obj usage_examples)
   \<and> field (obj usage_examples) ''list_ip_sets'' = None
   \<and> field (obj usage_examples) ''list_threat_intel_sets'' = None
   \<and> preprocess sample_env [(PStr ''params'', PStr ''not valid json'')] =
       InvalidJson ''Expecting value: line 1 column 1 (char 0)''
   \<and> fst (guardduty_security_operations sample_env ''bogus'' None
            [(PStr ''params'', PStr ''not valid json'')]) =
       [request_log ''bogus'' None,
        LogError ''Error parsing JSON params: Expecting value: line 1 column 1 (char 0)'']"
  by (simp add: dispatch_def field_def unknown_operation_response_def obj_def usage_examples_def
      preprocess_def guardduty_security_operations_def handler_def Let_def)

section \<open>A nested \<^verbatim>\<open>params\<close> mapping\<close>

text \<open>
  Claim C4, as amended.  When the bag has the key \<^verbatim>\<open>params\<close> and its value is a mapping,
  preprocessing completes and every entry of that nested mapping is visible to the validation
  and to the collaborator call.  When \<^verbatim>\<open>params\<close> is the only key of the bag (and the nested
  mapping has no \<^verbatim>\<open>params\<close> key of its own), the call is equivalent to passing the nested
  mapping directly.
\<close>

theorem nested_params_mapping:
  assumes "dict_get params (PStr ''params'') = Some (PDict d)"
  shows
    "(\<exists>ps. preprocess e params = Proceed False ps
          \<and> (\<forall>k v. dict_get d k = Some v \<longrightarrow> dict_get ps k = Some v))
     \<and> (params = [(PStr ''params'', PDict d)] \<and> dict_get d (PStr ''params'') = None \<longrightarrow>
          guardduty_security_operations e operation sc params =
          guardduty_security_operations e operation sc d)"
proof (intro conjI impI)
  have "preprocess e params = Proceed False d"
    using assms by (simp add: preprocess_def)
  then show "\<exists>ps. preprocess e params = Proceed False ps
          \<and> (\<forall>k v. dict_get d k = Some v \<longrightarrow> dict_get ps k = Some v)"
    by simp
next
  assume h: "params = [(PStr ''params'', PDict d)] \<and> dict_get d (PStr ''params'') = None"
  have "preprocess e params = Proceed False d"
    using assms by (simp add: preprocess_def)
  moreover have "preprocess e d = Proceed False d"
    using h by (simp add: preprocess_def)
  ultimately show "guardduty_security_operations e operation sc params =
          guardduty_security_operations e operation sc d"
    by (simp add: guardduty_security_operations_def)
qed

text \<open>
  The theorem at \<^verbatim>\<open>{"params": {"detector_id": "d1"}}\<close> for \<^verbatim>\<open>list_ip_sets\<close>: the call equals
  the call with \<^verbatim>\<open>{"detector_id": "d1"}\<close>, and awaits \<^verbatim>\<open>list_ip_sets\<close> for detector \<^verbatim>\<open>d1\<close>.
\<close>

theorem nested_params_mapping_witness:
  "dict_get [(PStr ''params'', PDict [(PStr ''detector_id'', PStr ''d1'')])] (PStr ''params'') =
     Some (PDict [(PStr ''detector_id'', PStr ''d1'')])
   \<and> dict_get [(PStr ''detector_id'', PStr ''d1'')] (PStr ''params'') = None
   \<and> preprocess sample_env [(PStr ''params'', PDict [(PStr ''detector_id'', PStr ''d1'')])] =
       Proceed False [(PStr ''detector_id'', PStr ''d1'')]
   \<and> guardduty_security_operations sample_env ''list_ip_sets'' None
       [(PStr ''params'', PDict [(PStr ''detector_id'', PStr ''d1'')])] =
     guardduty_security_operations sample_env ''list_ip_sets'' None
       [(PStr ''detector_id'', PStr ''d1'')]
   \<and> passes_through sample_env (ListIpSets (PStr ''d1'') (PInt 50) None)
       (guardduty_security_operations sample_env ''list_ip_sets'' None
          [(PStr ''params'', PDict [(PStr ''detector_id'', PStr ''d1'')])])"
proof -
  have a: "dict_get [(PStr ''params'', PDict [(PStr ''detector_id'', PStr ''d1'')])] (PStr ''params'') =
     Some (PDict [(PStr ''detector_id'', PStr ''d1'')])"
    by simp
  have b: "preprocess sample_env [(PStr ''params'', PDict [(PStr ''detector_id'', PStr ''d1'')])] =
       Proceed False [(PStr ''detector_id'', PStr ''d1'')]"
    by (simp add: preprocess_def)
  have c: "passes_through sample_env (ListIpSets (PStr ''d1'') (PInt 50) None)
       (guardduty_security_operations sample_env ''list_ip_sets'' None
          [(PStr ''params'', PDict [(PStr ''detector_id'', PStr ''d1'')])])"
    by (rule invoke_passes_through [OF b]) (simp add: dispatch_def dict_get_default_def)
  show ?thesis
    using a b c nested_params_mapping [OF a, of sample_env "''list_ip_sets''" None]
    by simp
qed

text \<open>
  The claim as first stated fails twice.  Line 91 looks at the key \<^verbatim>\<open>params\<close> only: a mapping
  under any other key, here \<^verbatim>\<open>envelope\<close>, is left where it is, and its \<^verbatim>\<open>detector_id\<close> is not
  found.  And line 92 replaces the bag by the nested mapping: the top-level \<^verbatim>\<open>detector_id\<close> of
  \<^verbatim>\<open>{"detector_id": "d1", "params": {"max_results": 5}}\<close> is gone after preprocessing, and
  \<^verbatim>\<open>list_ip_sets\<close> takes the branch for a missing \<^verbatim>\<open>detector_id\<close>.
\<close>

theorem nested_params_mapping_counterexample:
  "preprocess sample_env [(PStr ''envelope'', PDict [(PStr ''detector_id'', PStr ''d1'')])] =
     Proceed False [(PStr ''envelope'', PDict [(PStr ''detector_id'', PStr ''d1'')])]
   \<and> dispatch ''list_ip_sets'' None
       [(PStr ''envelope'', PDict [(PStr ''detector_id'', PStr ''d1'')])] =
     Respond (obj [
       (''error'', PStr ''detector_id is required for list_ip_sets operation''),
       (''usage'', PStr (''operation='list_ip_sets', detector_id='your-detector-id'' @ sq))])
   \<and> preprocess sample_env
       [(PStr ''detector_id'', PStr ''d1''),
        (PStr ''params'', PDict [(PStr ''max_results'', PInt 5)])] =
     Proceed False [(PStr ''max_results'', PInt 5)]
   \<and> dispatch ''list_ip_sets'' None [(PStr ''max_results'', PInt 5)] =
     Respond (obj [
       (''error'', PStr ''detector_id is required for list_ip_sets operation''),
       (''usage'', PStr (''operation='list_ip_sets', detector_id='your-detector-id'' @ sq))])
   \<and> calls_of (fst (guardduty_security_operations sample_env ''list_ip_sets'' None
       [(PStr ''detector_id'', PStr ''d1''),
        (PStr ''params'', PDict [(PStr ''max_results'', PInt 5)])])) = []"
  by (simp add: preprocess_def dispatch_def guardduty_security_operations_def handler_def Let_def)

section \<open>Faults\<close>

text \<open>
  With \<^verbatim>\<open>json\<close> bound, a fault raised by the awaited collaborator is logged, with its
  traceback, and turned into the serialisation of an error object with the failure message,
  the name of the fault's type, the operation and the normalised parameter bag.
\<close>

lemma collaborator_fault_reported:
  assumes "preprocess e params = Proceed True ps"
    and "dispatch operation sc ps = Invoke c"
    and "collaborator e c = Inl f"
  shows "guardduty_security_operations e operation sc params =
           ([request_log operation sc, Await c,
             LogError (''Error in GuardDuty operation '' @ sq @ operation @ sq @ '': '' @ message f),
             LogError (''Traceback: '' @ traceback f)],
            Inr (json_dumps e None (obj [(''error'', obj [
                   (''message'',
                      PStr (''Error executing GuardDuty operation '' @ sq @ operation @ sq @
                            '': '' @ message f)),
                   (''type'', PStr (type_name f)),
                   (''operation'', PStr operation),
                   (''parameters'', PDict ps)])])))"
  using assms
  by (simp add: guardduty_security_operations_def handler_def fault_response_def Let_def)

text \<open>
  A nested \<^verbatim>\<open>params\<close> string that is valid JSON for a number: \<^verbatim>\<open>json.loads\<close> returns an
  integer, \<^verbatim>\<open>params.update\<close> of line 98 raises \<^verbatim>\<open>TypeError\<close>, which the \<^verbatim>\<open>except\<close> of
  line 100 does not catch, and the exception leaves the function.
\<close>

lemma non_mapping_json_escapes:
  assumes "dict_get params (PStr ''params'') = Some (PStr s)"
    and "json_loads e s = Decoded (PInt n)"
  shows "guardduty_security_operations e operation sc params =
           ([request_log operation sc], Inl TypeError)"
  using assms
  by (simp add: guardduty_security_operations_def preprocess_def dict_update_def Let_def)

text \<open>
  All the ways an exception leaves the function: \<^verbatim>\<open>params.update\<close> raises during
  preprocessing, or \<^verbatim>\<open>json\<close> is unbound and either a branch returns an error object or the
  awaited collaborator raises.
\<close>

lemma fault_escapes_iff:
  "snd (guardduty_security_operations e operation sc params) = Inl err \<longleftrightarrow>
     preprocess e params = Escapes err
     \<or> (err = UnboundLocalError \<and>
        (\<exists>ps. preprocess e params = Proceed False ps \<and>
           ((\<exists>response. dispatch operation sc ps = Respond response) \<or>
            (\<exists>c f. dispatch operation sc ps = Invoke c \<and> collaborator e c = Inl f))))"
  by (auto simp add: guardduty_security_operations_def handler_def Let_def
      split: preprocessed.splits action.splits sum.splits)

text \<open>
  Claim C5 says that no fault ever leaves the function and that a fault of the awaited
  collaborator is turned into returned error text.  The code when the bag has no nested
  \<^verbatim>\<open>params\<close> string, so that \<^verbatim>\<open>json\<close> is unbound, and the collaborator raises: the handler
  logs the fault and its traceback, its \<^verbatim>\<open>json.dumps\<close> of line 255 raises
  \<^verbatim>\<open>UnboundLocalError\<close>, and that exception leaves the function.
\<close>

theorem collaborator_fault_escapes:
  assumes "preprocess e params = Proceed False ps"
    and "dispatch operation sc ps = Invoke c"
    and "collaborator e c = Inl f"
  shows "guardduty_security_operations e operation sc params =
           ([request_log operation sc, Await c,
             LogError (''Error in GuardDuty operation '' @ sq @ operation @ sq @ '': '' @ message f),
             LogError (''Traceback: '' @ traceback f)],
            Inl UnboundLocalError)"
  using assms
  by (simp add: guardduty_security_operations_def handler_def Let_def)

text \<open>
  The same at \<^verbatim>\<open>operation="list_detectors"\<close> with an empty bag, when \<^verbatim>\<open>list_detectors\<close> raises.
\<close>

theorem collaborator_fault_escapes_witness:
  "preprocess failing_env [] = Proceed False []
   \<and> dispatch ''list_detectors'' None [] = Invoke (ListDetectors (PInt 100) None)
   \<and> collaborator failing_env (ListDetectors (PInt 100) None) =
       Inl \<lparr>type_name = ''ClientError'',
            message = ''An error occurred (AccessDeniedException)'',
            traceback = ''Traceback (most recent call last)''\<rparr>
   \<and> guardduty_security_operations failing_env ''list_detectors'' None [] =
       ([request_log ''list_detectors'' None, Await (ListDetectors (PInt 100) None),
         LogError ''Error in GuardDuty operation 'list_detectors': An error occurred (AccessDeniedException)'',
         LogError ''Traceback: Traceback (most recent call last)''],
        Inl UnboundLocalError)"
proof -
  have a: "preprocess failing_env [] = Proceed False []"
    by (simp add: preprocess_def)
  have b: "dispatch ''list_detectors'' None [] = Invoke (ListDetectors (PInt 100) None)"
    by (simp add: dispatch_def dict_get_default_def)
  have c: "collaborator failing_env (ListDetectors (PInt 100) None) =
       Inl \<lparr>type_name = ''ClientError'',
            message = ''An error occurred (AccessDeniedException)'',
            traceback = ''Traceback (most recent call last)''\<rparr>"
    by simp
  show ?thesis
    using a b c collaborator_fault_escapes [OF a b c] by simp
qed

section \<open>Missing required parameters\<close>

text \<open>
  In every branch that finds a required parameter missing, no collaborator is awaited, and
  when \<^verbatim>\<open>json\<close> is bound the returned text is the serialisation of an error that names the
  missing parameters, with a usage hint.
\<close>

lemma missing_required_parameter:
  assumes "preprocess e params = Proceed json_bound ps"
  shows
    "(dict_get ps (PStr ''detector_id'') = None \<longrightarrow>
        answers e json_bound
          (obj [(''error'', PStr ''detector_id is required for list_findings operation''),
                (''usage'', PStr (''operation='list_findings', detector_id='your-detector-id'' @ sq))])
          (guardduty_security_operations e ''list_findings'' sc params)
        \<and> answers e json_bound
          (obj [(''error'', PStr ''detector_id is required for list_ip_sets operation''),
                (''usage'', PStr (''operation='list_ip_sets', detector_id='your-detector-id'' @ sq))])
          (guardduty_security_operations e ''list_ip_sets'' sc params)
        \<and> answers e json_bound
          (obj [(''error'', PStr ''detector_id is required for list_threat_intel_sets operation''),
                (''usage'', PStr (''operation='list_threat_intel_sets', detector_id='your-detector-id'' @ sq))])
          (guardduty_security_operations e ''list_threat_intel_sets'' sc params)
        \<and> answers e json_bound
          (obj [(''error'', PStr ''detector_id is required for get_findings_statistics operation''),
                (''usage'', PStr (''operation='get_findings_statistics', detector_id='detector-id', finding_statistic_types=['COUNT_BY_SEVERITY'] OR group_by='FINDING_TYPE'' @ sq))])
          (guardduty_security_operations e ''get_findings_statistics'' sc params))
     \<and> (dict_get ps (PStr ''detector_id'') = None \<and> dict_get ps (PStr ''finding_id'') = Some v \<longrightarrow>
        answers e json_bound
          (obj [(''error'', PStr ''Missing required parameters: ['detector_id']''),
                (''usage'', PStr (''operation='get_finding_details', detector_id='detector-id', finding_id='finding-id'' @ sq))])
          (guardduty_security_operations e ''get_finding_details'' sc params))
     \<and> (dict_get ps (PStr ''detector_id'') = Some v \<and> dict_get ps (PStr ''finding_id'') = None \<longrightarrow>
        answers e json_bound
          (obj [(''error'', PStr ''Missing required parameters: ['finding_id']''),
                (''usage'', PStr (''operation='get_finding_details', detector_id='detector-id', finding_id='finding-id'' @ sq))])
          (guardduty_security_operations e ''get_finding_details'' sc params))
     \<and> (dict_get ps (PStr ''detector_id'') = None \<and> dict_get ps (PStr ''finding_id'') = None \<longrightarrow>
        answers e json_bound
          (obj [(''error'', PStr ''Missing required parameters: ['detector_id', 'finding_id']''),
                (''usage'', PStr (''operation='get_finding_details', detector_id='detector-id', finding_id='finding-id'' @ sq))])
          (guardduty_security_operations e ''get_finding_details'' sc params))"
proof -
  note r = respond_answers [OF assms]
  have 1: "dict_get ps (PStr ''detector_id'') = None \<Longrightarrow>
        answers e json_bound
          (obj [(''error'', PStr ''detector_id is required for list_findings operation''),
                (''usage'', PStr (''operation='list_findings', detector_id='your-detector-id'' @ sq))])
          (guardduty_security_operations e ''list_findings'' sc params)"
    by (rule r) (simp add: dispatch_def)
  have 2: "dict_get ps (PStr ''detector_id'') = None \<Longrightarrow>
        answers e json_bound
          (obj [(''error'', PStr ''detector_id is required for list_ip_sets operation''),
                (''usage'', PStr (''operation='list_ip_sets', detector_id='your-detector-id'' @ sq))])
          (guardduty_security_operations e ''list_ip_sets'' sc params)"
    by (rule r) (simp add: dispatch_def)
  have 3: "dict_get ps (PStr ''detector_id'') = None \<Longrightarrow>
        answers e json_bound
          (obj [(''error'', PStr ''detector_id is required for list_threat_intel_sets operation''),
                (''usage'', PStr (''operation='list_threat_intel_sets', detector_id='your-detector-id'' @ sq))])
          (guardduty_security_operations e ''list_threat_intel_sets'' sc params)"
    by (rule r) (simp add: dispatch_def)
  have 4: "dict_get ps (PStr ''detector_id'') = None \<Longrightarrow>
        answers e json_bound
          (obj [(''error'', PStr ''detector_id is required for get_findings_statistics operation''),
                (''usage'', PStr (''operation='get_findings_statistics', detector_id='detector-id', finding_statistic_types=['COUNT_BY_SEVERITY'] OR group_by='FINDING_TYPE'' @ sq))])
          (guardduty_security_operations e ''get_findings_statistics'' sc params)"
    by (rule r) (simp add: dispatch_def usage_statistics_def)
  have 5: "dict_get ps (PStr ''detector_id'') = None \<and> dict_get ps (PStr ''finding_id'') = Some v \<Longrightarrow>
        answers e json_bound
          (obj [(''error'', PStr ''Missing required parameters: ['detector_id']''),
                (''usage'', PStr (''operation='get_finding_details', detector_id='detector-id', finding_id='finding-id'' @ sq))])
          (guardduty_security_operations e ''get_finding_details'' sc params)"
    by (rule r) (simp add: dispatch_def required_params_def py_str_list_def)
  have 6: "dict_get ps (PStr ''detector_id'') = Some v \<and> dict_get ps (PStr ''finding_id'') = None \<Longrightarrow>
        answers e json_bound
          (obj [(''error'', PStr ''Missing required parameters: ['finding_id']''),
                (''usage'', PStr (''operation='get_finding_details', detector_id='detector-id', finding_id='finding-id'' @ sq))])
          (guardduty_security_operations e ''get_finding_details'' sc params)"
    by (rule r) (simp add: dispatch_def required_params_def py_str_list_def)
  have 7: "dict_get ps (PStr ''detector_id'') = None \<and> dict_get ps (PStr ''finding_id'') = None \<Longrightarrow>
        answers e json_bound
          (obj [(''error'', PStr ''Missing required parameters: ['detector_id', 'finding_id']''),
                (''usage'', PStr (''operation='get_finding_details', detector_id='detector-id', finding_id='finding-id'' @ sq))])
          (guardduty_security_operations e ''get_finding_details'' sc params)"
    by (rule r) (simp add: dispatch_def required_params_def py_str_list_def)
  from 1 2 3 4 5 6 7 show ?thesis by blast
qed

lemma missing_parameter_responds:
  assumes "operation \<in> {''list_findings'', ''list_ip_sets'', ''list_threat_intel_sets'',
             ''get_findings_statistics''} \<and> dict_get ps (PStr ''detector_id'') = None
           \<or> operation = ''get_finding_details'' \<and>
             (dict_get ps (PStr ''detector_id'') = None \<or> dict_get ps (PStr ''finding_id'') = None)"
  shows "\<exists>response. dispatch operation sc ps = Respond response"
  using assms
  by (elim disjE conjE insertE emptyE; simp add: dispatch_def Let_def split: option.splits)

text \<open>
  Claim C6 says that a missing required parameter yields a returned error that names it.  The
  code when the bag has no nested \<^verbatim>\<open>params\<close> string, so that \<^verbatim>\<open>json\<close> is unbound: for each
  of the five operations with a required parameter missing, no collaborator is awaited, the
  \<^verbatim>\<open>json.dumps\<close> of the error raises \<^verbatim>\<open>UnboundLocalError\<close>, the handler logs it, raises it
  again from its own \<^verbatim>\<open>json.dumps\<close>, and the exception leaves the function in place of the
  error text.
\<close>

theorem missing_parameter_escapes:
  assumes "preprocess e params = Proceed False ps"
    and "operation \<in> {''list_findings'', ''list_ip_sets'', ''list_threat_intel_sets'',
             ''get_findings_statistics''} \<and> dict_get ps (PStr ''detector_id'') = None
           \<or> operation = ''get_finding_details'' \<and>
             (dict_get ps (PStr ''detector_id'') = None \<or> dict_get ps (PStr ''finding_id'') = None)"
  shows "guardduty_security_operations e operation sc params =
           ([request_log operation sc,
             LogError (''Error in GuardDuty operation '' @ sq @ operation @ sq @ '': '' @
                       message (unbound_local e)),
             LogError (''Traceback: '' @ traceback (unbound_local e))],
            Inl UnboundLocalError)"
proof -
  obtain response where "dispatch operation sc ps = Respond response"
    using missing_parameter_responds [OF assms(2)] by blast
  then show ?thesis
    by (rule respond_unbound [OF assms(1)])
qed

text \<open>The same at \<^verbatim>\<open>operation="list_findings"\<close> with an empty bag.\<close>

theorem missing_parameter_escapes_witness:
  "preprocess sample_env [] = Proceed False []
   \<and> dict_get [] (PStr ''detector_id'') = None
   \<and> snd (guardduty_security_operations sample_env ''list_findings'' None []) =
       Inl UnboundLocalError
   \<and> calls_of (fst (guardduty_security_operations sample_env ''list_findings'' None [])) = []"
proof -
  have a: "preprocess sample_env [] = Proceed False []"
    by (simp add: preprocess_def)
  have b: "''list_findings'' \<in> {''list_findings'', ''list_ip_sets'', ''list_threat_intel_sets'',
             ''get_findings_statistics''} \<and> dict_get [] (PStr ''detector_id'') = None
           \<or> ''list_findings'' = ''get_finding_details'' \<and>
             (dict_get [] (PStr ''detector_id'') = None \<or> dict_get [] (PStr ''finding_id'') = None)"
    by simp
  show ?thesis
    using a missing_parameter_escapes [OF a b, of None] by simp
qed

section \<open>The default of \<^verbatim>\<open>max_results\<close>\<close>

text \<open>
  Claim C8.  Let preprocessing yield the normalised bag \<open>ps\<close>.  When \<^verbatim>\<open>max_results\<close> is not
  in \<open>ps\<close>, the collaborator of \<^verbatim>\<open>list_detectors\<close> is awaited with \<^verbatim>\<open>max_results = 100\<close>,
  and those of \<^verbatim>\<open>list_findings\<close>, \<^verbatim>\<open>list_ip_sets\<close> and \<^verbatim>\<open>list_threat_intel_sets\<close> (which need
  a \<^verbatim>\<open>detector_id\<close>) with \<^verbatim>\<open>max_results = 50\<close>; when it is in \<open>ps\<close>, its value is passed on
  as it is.
\<close>

theorem max_results_default:
  assumes "preprocess e params = Proceed json_bound ps"
  shows
    "(dict_get ps (PStr ''max_results'') = None \<longrightarrow>
        passes_through e (ListDetectors (PInt 100) sc)
          (guardduty_security_operations e ''list_detectors'' sc params))
     \<and> (dict_get ps (PStr ''max_results'') = Some max_results \<longrightarrow>
        passes_through e (ListDetectors max_results sc)
          (guardduty_security_operations e ''list_detectors'' sc params))
     \<and> (dict_get ps (PStr ''detector_id'') = Some detector_id \<and>
        dict_get ps (PStr ''max_results'') = None \<longrightarrow>
        passes_through e
          (ListFindings detector_id (PInt 50)
             (dict_get_default ps (PStr ''finding_ids'') PNone)
             (dict_get_default ps (PStr ''severity'') PNone)
             (dict_get_default ps (PStr ''search_term'') PNone) sc)
          (guardduty_security_operations e ''list_findings'' sc params)
        \<and> passes_through e (ListIpSets detector_id (PInt 50) sc)
          (guardduty_security_operations e ''list_ip_sets'' sc params)
        \<and> passes_through e (ListThreatIntelSets detector_id (PInt 50) sc)
          (guardduty_security_operations e ''list_threat_intel_sets'' sc params))
     \<and> (dict_get ps (PStr ''detector_id'') = Some detector_id \<and>
        dict_get ps (PStr ''max_results'') = Some max_results \<longrightarrow>
        passes_through e
          (ListFindings detector_id max_results
             (dict_get_default ps (PStr ''finding_ids'') PNone)
             (dict_get_default ps (PStr ''severity'') PNone)
             (dict_get_default ps (PStr ''search_term'') PNone) sc)
          (guardduty_security_operations e ''list_findings'' sc params)
        \<and> passes_through e (ListIpSets detector_id max_results sc)
          (guardduty_security_operations e ''list_ip_sets'' sc params)
        \<and> passes_through e (ListThreatIntelSets detector_id max_results sc)
          (guardduty_security_operations e ''list_threat_intel_sets'' sc params))"
proof -
  note i = invoke_passes_through [OF assms]
  have absent: "dict_get ps (PStr ''max_results'') = None \<Longrightarrow>
      dict_get_default ps (PStr ''max_results'') dflt = dflt" for dflt
    by (simp add: dict_get_default_def)
  have present: "dict_get ps (PStr ''max_results'') = Some max_results \<Longrightarrow>
      dict_get_default ps (PStr ''max_results'') dflt = max_results" for dflt
    by (simp add: dict_get_default_def)
  have 1: "dict_get ps (PStr ''max_results'') = None \<Longrightarrow>
        passes_through e (ListDetectors (PInt 100) sc)
          (guardduty_security_operations e ''list_detectors'' sc params)"
    by (rule i) (simp add: dispatch_def absent)
  have 2: "dict_get ps (PStr ''max_results'') = Some max_results \<Longrightarrow>
        passes_through e (ListDetectors max_results sc)
          (guardduty_security_operations e ''list_detectors'' sc params)"
    by (rule i) (simp add: dispatch_def present)
  have 3: "passes_through e
          (ListFindings detector_id (PInt 50)
             (dict_get_default ps (PStr ''finding_ids'') PNone)
             (dict_get_default ps (PStr ''severity'') PNone)
             (dict_get_default ps (PStr ''search_term'') PNone) sc)
          (guardduty_security_operations e ''list_findings'' sc params)
        \<and> passes_through e (ListIpSets detector_id (PInt 50) sc)
          (guardduty_security_operations e ''list_ip_sets'' sc params)
        \<and> passes_through e (ListThreatIntelSets detector_id (PInt 50) sc)
          (guardduty_security_operations e ''list_threat_intel_sets'' sc params)"
    if "dict_get ps (PStr ''detector_id'') = Some detector_id \<and>
        dict_get ps (PStr ''max_results'') = None"
    using that by (intro conjI i) (simp_all add: dispatch_def absent)
  have 4: "passes_through e
          (ListFindings detector_id max_results
             (dict_get_default ps (PStr ''finding_ids'') PNone)
             (dict_get_default ps (PStr ''severity'') PNone)
             (dict_get_default ps (PStr ''search_term'') PNone) sc)
          (guardduty_security_operations e ''list_findings'' sc params)
        \<and> passes_through e (ListIpSets detector_id max_results sc)
          (guardduty_security_operations e ''list_ip_sets'' sc params)
        \<and> passes_through e (ListThreatIntelSets detector_id max_results sc)
          (guardduty_security_operations e ''list_threat_intel_sets'' sc params)"
    if "dict_get ps (PStr ''detector_id'') = Some detector_id \<and>
        dict_get ps (PStr ''max_results'') = Some max_results"
    using that by (intro conjI i) (simp_all add: dispatch_def present)
  from 1 2 3 4 show ?thesis by blast
qed

text \<open>
  The theorem at \<^verbatim>\<open>{"detector_id": "d1"}\<close> and at \<^verbatim>\<open>{"detector_id": "d1", "max_results": 7}\<close>.
\<close>

theorem max_results_default_witness:
  "preprocess sample_env [(PStr ''detector_id'', PStr ''d1'')] =
     Proceed False [(PStr ''detector_id'', PStr ''d1'')]
   \<and> passes_through sample_env (ListDetectors (PInt 100) None)
       (guardduty_security_operations sample_env ''list_detectors'' None
          [(PStr ''detector_id'', PStr ''d1'')])
   \<and> passes_through sample_env (ListFindings (PStr ''d1'') (PInt 50) PNone PNone PNone None)
       (guardduty_security_operations sample_env ''list_findings'' None
          [(PStr ''detector_id'', PStr ''d1'')])
   \<and> passes_through sample_env (ListIpSets (PStr ''d1'') (PInt 50) None)
       (guardduty_security_operations sample_env ''list_ip_sets'' None
          [(PStr ''detector_id'', PStr ''d1'')])
   \<and> passes_through sample_env (ListThreatIntelSets (PStr ''d1'') (PInt 50) None)
       (guardduty_security_operations sample_env ''list_threat_intel_sets'' None
          [(PStr ''detector_id'', PStr ''d1'')])
   \<and> passes_through sample_env (ListDetectors (PInt 7) None)
       (guardduty_security_operations sample_env ''list_detectors'' None
          [(PStr ''detector_id'', PStr ''d1''), (PStr ''max_results'', PInt 7)])
   \<and> passes_through sample_env (ListFindings (PStr ''d1'') (PInt 7) PNone PNone PNone None)
       (guardduty_security_operations sample_env ''list_findings'' None
          [(PStr ''detector_id'', PStr ''d1''), (PStr ''max_results'', PInt 7)])
   \<and> passes_through sample_env (ListIpSets (PStr ''d1'') (PInt 7) None)
       (guardduty_security_operations sample_env ''list_ip_sets'' None
          [(PStr ''detector_id'', PStr ''d1''), (PStr ''max_results'', PInt 7)])
   \<and> passes_through sample_env (ListThreatIntelSets (PStr ''d1'') (PInt 7) None)
       (guardduty_security_operations sample_env ''list_threat_intel_sets'' None
          [(PStr ''detector_id'', PStr ''d1''), (PStr ''max_results'', PInt 7)])"
proof -
  have p: "preprocess sample_env [(PStr ''detector_id'', PStr ''d1'')] =
         Proceed False [(PStr ''detector_id'', PStr ''d1'')]"
      "preprocess sample_env [(PStr ''detector_id'', PStr ''d1''), (PStr ''max_results'', PInt 7)] =
         Proceed False [(PStr ''detector_id'', PStr ''d1''), (PStr ''max_results'', PInt 7)]"
    by (simp_all add: preprocess_def)
  show ?thesis
    using p(1) max_results_default [OF p(1), where sc = None and max_results = "PInt 7"
        and detector_id = "PStr ''d1''"]
      max_results_default [OF p(2), where sc = None and max_results = "PInt 7"
        and detector_id = "PStr ''d1''"]
    by (simp add: dict_get_default_def)
qed

section \<open>The catalog\<close>

lemma known_operation_not_unknown:
  assumes "operation \<in> set available_operations"
  shows "dispatch operation sc ps \<noteq> Respond (unknown_operation_response operation)"
  using assms
  by (auto simp add: available_operations_def dispatch_def unknown_operation_response_def
      obj_def Let_def split: option.splits)

lemma unknown_operation_dispatch:
  assumes "operation \<notin> set available_operations"
  shows "dispatch operation sc ps = Respond (unknown_operation_response operation)"
  using assms by (simp add: available_operations_def dispatch_def)

text \<open>
  Claim C9.  \<^verbatim>\<open>discover_guardduty_operations\<close> takes no argument and always returns text, the
  indented serialisation of the catalog, with no other effect.  The catalog's \<^verbatim>\<open>operations\<close>
  has exactly six entries, and their names are exactly the operation names that a branch of
  the dispatcher handles: the names for which \<^verbatim>\<open>guardduty_security_operations\<close> does not fall
  through to the unknown-operation response.
\<close>

theorem catalog_operations_match_branches:
  "discover_guardduty_operations e = ([], Inr (json_dumps e (Some 2) operations_catalog))
   \<and> field operations_catalog ''operations'' = Some (obj catalog_operations)
   \<and> map fst catalog_operations =
       [''list_detectors'', ''list_findings'', ''get_finding_details'', ''list_ip_sets'',
        ''list_threat_intel_sets'', ''get_findings_statistics'']
   \<and> length catalog_operations = 6
   \<and> (\<forall>operation.
        (operation \<in> set (map fst catalog_operations)) =
        (\<forall>sc ps. dispatch operation sc ps \<noteq> Respond (unknown_operation_response operation)))"
proof -
  have names: "map fst catalog_operations =
       [''list_detectors'', ''list_findings'', ''get_finding_details'', ''list_ip_sets'',
        ''list_threat_intel_sets'', ''get_findings_statistics'']"
    by (simp add: catalog_operations_def)
  then have same: "set (map fst catalog_operations) = set available_operations"
    by (simp add: available_operations_def)
  have len: "length catalog_operations = 6"
    using arg_cong [OF names, of length] by simp
  have fld: "field operations_catalog ''operations'' = Some (obj catalog_operations)"
    by (simp add: field_def operations_catalog_def obj_def)
  have "(operation \<in> set (map fst catalog_operations)) =
        (\<forall>sc ps. dispatch operation sc ps \<noteq> Respond (unknown_operation_response operation))"
    for operation
    unfolding same
    using known_operation_not_unknown [of operation] unknown_operation_dispatch [of operation]
    by blast
  with names len fld show ?thesis
    by (simp add: discover_guardduty_operations_def)
qed

text \<open>
  Claim C10.  Two invocations of \<^verbatim>\<open>discover_guardduty_operations\<close> return the same text: the
  result is the serialisation of one literal, so with the same \<^verbatim>\<open>json.dumps\<close> it is the same
  in any two environments, whatever the collaborators and the decoder are.
\<close>

theorem discover_is_deterministic:
  assumes "json_dumps e1 = json_dumps e2"
  shows "discover_guardduty_operations e1 = discover_guardduty_operations e2"
  using assms by (simp add: discover_guardduty_operations_def)

text \<open>
  The theorem at two environments that share \<^verbatim>\<open>json.dumps\<close> and differ in their
  collaborators.
\<close>

theorem discover_is_deterministic_witness:
  "json_dumps sample_env = json_dumps failing_env
   \<and> collaborator sample_env \<noteq> collaborator failing_env
   \<and> discover_guardduty_operations sample_env = discover_guardduty_operations failing_env"
proof -
  have a: "json_dumps sample_env = json_dumps failing_env"
    by simp
  have "collaborator sample_env (ListDetectors PNone None) \<noteq>
        collaborator failing_env (ListDetectors PNone None)"
    by simp
  then have b: "collaborator sample_env \<noteq> collaborator failing_env"
    by metis
  show ?thesis
    using a b discover_is_deterministic [OF a] by simp
qed

end
